theory Spec2Isabelle
  imports Main
begin

section \<open>Values shared by the modules\<close>

text \<open>
  The value that \<^verbatim>\<open>json.loads\<close> returns and \<^verbatim>\<open>json.dumps\<close> takes. A Python
  \<^verbatim>\<open>dict\<close> keeps its insertion order, so an object is a list of members whose keys
  are pairwise different. A float is kept as the text of its literal: no modelled
  operation looks into it.
\<close>

datatype json =
    JObject "(string \<times> json) list"
  | JArray "json list"
  | JString string
  | JInt int
  | JFloat string
  | JBool bool
  | JNull

type_synonym pydict = "(string \<times> json) list"

text \<open>\<^verbatim>\<open>d[k] = v\<close>: an existing key keeps its place and takes the new value, a new
  key goes to the end.\<close>

fun dict_set :: "(string \<times> 'v) list \<Rightarrow> string \<Rightarrow> 'v \<Rightarrow> (string \<times> 'v) list" where
  "dict_set [] k v = [(k, v)]"
| "dict_set ((k', v') # d) k v =
     (if k' = k then (k, v) # d else (k', v') # dict_set d k v)"

text \<open>\<^verbatim>\<open>d.get(k)\<close>: the value stored under a key, if any.\<close>

fun dict_get :: "(string \<times> 'v) list \<Rightarrow> string \<Rightarrow> 'v option" where
  "dict_get [] k = None"
| "dict_get ((k', v') # d) k = (if k' = k then Some v' else dict_get d k)"

text \<open>
  Exceptions are values: the class and the text that \<^verbatim>\<open>str(e)\<close> gives. The classes
  of module \<^verbatim>\<open>exceptions\<close> that the sources name are separate classes here, none a
  subclass of another; the built-in ones are those the modelled statements can raise.
\<close>

datatype exc_class =
    BadYangLibraryData
  | FeaturePrerequisiteError
  | MultipleImplementedRevisions
  | ModuleNotFound
  | ModuleNotRegistered
  | InvalidSchemaPath
  | JSONDecodeError
  | FileNotFoundError
  | PermissionError
  | TypeError
  | AttributeError
  | KeyError
  | OtherException string

datatype exn = Exn (cls: exc_class) (msg: string)

section \<open>constants.py\<close>

text \<open>
  The patterns of \<^verbatim>\<open>constants.py\<close> as syntax trees, and \<^verbatim>\<open>re.match\<close> as the
  backtracking search that Python's engine performs: alternatives left to right, a
  repetition and an option greedy, giving back one character at a time. A character is
  one of the first 256 code points. There \<^verbatim>\<open>\d\<close> is a digit 0 to 9, and \<^verbatim>\<open>\s\<close> is
  a character of code 9 to 13, 28 to 32, 133 or 160.
\<close>

datatype citem = Ch char | Rng char char | Digit | Space

datatype rx =
    Lit char
  | CSet "citem list"
  | NSet "citem list"
  | Seq rx rx
  | Alt rx rx
  | Opt rx
  | Star rx
  | Plus rx
  | Group string rx

fun citem_has :: "citem \<Rightarrow> char \<Rightarrow> bool" where
  "citem_has (Ch d) c = (c = d)"
| "citem_has (Rng lo hi) c =
     ((of_char lo :: nat) \<le> of_char c \<and> (of_char c :: nat) \<le> of_char hi)"
| "citem_has Digit c = ((48 :: nat) \<le> of_char c \<and> (of_char c :: nat) \<le> 57)"
| "citem_has Space c =
     (let n = (of_char c :: nat)
      in (9 \<le> n \<and> n \<le> 13) \<or> (28 \<le> n \<and> n \<le> 32) \<or> n = 133 \<or> n = 160)"

definition cset_has :: "citem list \<Rightarrow> char \<Rightarrow> bool" where
  "cset_has its c = list_ex (\<lambda>i. citem_has i c) its"

type_synonym groups = "(string \<times> string) list"

text \<open>The text consumed between two positions, each given by what is left to read.\<close>

definition consumed :: "string \<Rightarrow> string \<Rightarrow> string" where
  "consumed s rest = take (length s - length rest) s"

text \<open>
  \<open>rx_go r s g k\<close> matches \<open>r\<close> at the start of \<open>s\<close> with the groups \<open>g\<close> set so far and
  hands what is left, and the groups, to the continuation \<open>k\<close>; when the continuation
  fails it tries the next way of matching \<open>r\<close>. A repetition whose body matched without
  consuming a character stops, as the engine's guard against empty loops does.
  The second argument of \<open>rx_star\<close> bounds the rounds by the length of the text.
\<close>

fun rx_go :: "rx \<Rightarrow> string \<Rightarrow> groups \<Rightarrow> (string \<Rightarrow> groups \<Rightarrow> 'a option) \<Rightarrow> 'a option"
and rx_star :: "rx \<Rightarrow> nat \<Rightarrow> string \<Rightarrow> groups \<Rightarrow> (string \<Rightarrow> groups \<Rightarrow> 'a option) \<Rightarrow> 'a option"
where
  "rx_go (Lit d) s g k = (case s of [] \<Rightarrow> None | c # cs \<Rightarrow> if c = d then k cs g else None)"
| "rx_go (CSet its) s g k =
     (case s of [] \<Rightarrow> None | c # cs \<Rightarrow> if cset_has its c then k cs g else None)"
| "rx_go (NSet its) s g k =
     (case s of [] \<Rightarrow> None | c # cs \<Rightarrow> if cset_has its c then None else k cs g)"
| "rx_go (Seq r1 r2) s g k = rx_go r1 s g (\<lambda>s' g'. rx_go r2 s' g' k)"
| "rx_go (Alt r1 r2) s g k =
     (case rx_go r1 s g k of Some m \<Rightarrow> Some m | None \<Rightarrow> rx_go r2 s g k)"
| "rx_go (Opt r) s g k =
     (case rx_go r s g k of Some m \<Rightarrow> Some m | None \<Rightarrow> k s g)"
| "rx_go (Star r) s g k = rx_star r (length s) s g k"
| "rx_go (Plus r) s g k = rx_go r s g (\<lambda>s' g'. rx_star r (length s') s' g' k)"
| "rx_go (Group n r) s g k =
     rx_go r s g (\<lambda>s' g'. k s' ((n, consumed s s') # filter (\<lambda>p. fst p \<noteq> n) g'))"
| "rx_star r 0 s g k = k s g"
| "rx_star r (Suc n) s g k =
     (case rx_go r s g
             (\<lambda>s' g'. if length s' < length s then rx_star r n s' g' k else None) of
        Some m \<Rightarrow> Some m
      | None \<Rightarrow> k s g)"

text \<open>\<^verbatim>\<open>pattern.match(s)\<close>: a match anchored at the start of \<open>s\<close>, given as the matched
  text and the named groups that took part, or \<open>None\<close>.\<close>

definition re_match :: "rx \<Rightarrow> string \<Rightarrow> (string \<times> groups) option" where
  "re_match r s = rx_go r s [] (\<lambda>rest g. Some (consumed s rest, g))"

text \<open>\<^verbatim>\<open>_ident = "[a-zA-Z_][a-zA-Z0-9_.-]*"\<close>\<close>

definition ident_rx :: rx where
  "ident_rx =
     Seq (CSet [Rng CHR ''a'' CHR ''z'', Rng CHR ''A'' CHR ''Z'', Ch CHR ''_''])
         (Star (CSet [Rng CHR ''a'' CHR ''z'', Rng CHR ''A'' CHR ''Z'',
                      Rng CHR ''0'' CHR ''9'', Ch CHR ''_'', Ch CHR ''.'', Ch CHR ''-'']))"

text \<open>\<^verbatim>\<open>_pname = "((?P<prf>{}):)?(?P<loc>{})".format(_ident, _ident)\<close>\<close>

definition pname_rx :: rx where
  "pname_rx =
     Seq (Opt (Seq (Group ''prf'' ident_rx) (Lit CHR '':''))) (Group ''loc'' ident_rx)"

text \<open>\<^verbatim>\<open>_rhs = """("(?P<drhs>[^"]*)"|'(?P<srhs>[^']*)')"""\<close>\<close>

definition rhs_rx :: rx where
  "rhs_rx =
     Alt (Seq (Lit CHR 0x22) (Seq (Group ''drhs'' (Star (NSet [Ch CHR 0x22]))) (Lit CHR 0x22)))
         (Seq (Lit CHR 0x27) (Seq (Group ''srhs'' (Star (NSet [Ch CHR 0x27]))) (Lit CHR 0x27)))"

text \<open>The first alternative of \<^verbatim>\<open>pred_re\<close>: \<^verbatim>\<open>({}|\.)\s*=\s*{}\<close> with \<^verbatim>\<open>_pname\<close>
  and \<^verbatim>\<open>_rhs\<close> filled in.\<close>

definition pred_keyed_rx :: rx where
  "pred_keyed_rx =
     Seq (Alt pname_rx (Lit CHR ''.''))
         (Seq (Star (CSet [Space]))
              (Seq (Lit CHR ''='') (Seq (Star (CSet [Space])) rhs_rx)))"

text \<open>The second, positional alternative of \<^verbatim>\<open>pred_re\<close>: \<^verbatim>\<open>(?P<pos>\d*)\<close>.\<close>

definition pred_pos_rx :: rx where
  "pred_pos_rx = Group ''pos'' (Star (CSet [Digit]))"

text \<open>\<^verbatim>\<open>pred_re = re.compile(r"\[\s*(({}|\.)\s*=\s*{}|(?P<pos>\d*))\s*\]".format(_pname, _rhs))\<close>\<close>

definition pred_re :: rx where
  "pred_re =
     Seq (Lit CHR ''['')
         (Seq (Star (CSet [Space]))
              (Seq (Alt pred_keyed_rx pred_pos_rx)
                   (Seq (Star (CSet [Space])) (Lit CHR '']''))))"

text \<open>\<^verbatim>\<open>ws_re = re.compile(r"[ \n\t\r]*")\<close>\<close>

definition ws_re :: rx where
  "ws_re = Star (CSet [Ch CHR '' '', Ch CHR 0x0A, Ch CHR 0x09, Ch CHR 0x0D])"

text \<open>\<^verbatim>\<open>_integer = "[0-9]+"\<close>\<close>

definition integer_re :: rx where
  "integer_re = Plus (CSet [Rng CHR ''0'' CHR ''9''])"

section \<open>datamodel.py\<close>

text \<open>Modelled from the spec: the enumeration \<^verbatim>\<open>ContentType\<close> of the absent module
  \<^verbatim>\<open>enumerations\<close>; the spec gives a datastore the content types Config and All, the
  two members that \<^verbatim>\<open>datamodel.py\<close> names.\<close>

datatype ContentType = config | all

text \<open>
  A Python object is its identity together with its contents. Two references are to the
  identical object exactly when the identities agree. The modelled code changes a schema
  tree only while it is built, before any second reference to it exists, so a reference
  can carry the contents along.
\<close>

record 'a pyobj =
  ident :: nat
  contents :: 'a

type_synonym YangIdentifier = string
type_synonym ModuleId = "string \<times> string"

record 's ModuleData =
  statement :: 's

text \<open>The attributes of \<^verbatim>\<open>SchemaData\<close> that \<^verbatim>\<open>_build_schema\<close> reads.\<close>

record 's SchemaData =
  module_sequence :: "ModuleId list"
  modules :: "ModuleId \<rightharpoonup> 's ModuleData"

record 's SchemaContext =
  schema_data_of :: "'s SchemaData"
  default_ns :: YangIdentifier
  text_mid :: ModuleId

record ('t, 's) Datastore =
  content_type :: ContentType
  schema_data :: "'s SchemaData pyobj"
  schema :: "'t pyobj"

text \<open>\<^verbatim>\<open>Datastore.__init__\<close>; the content type defaults to \<^verbatim>\<open>ContentType.config\<close>.\<close>

definition Datastore_init ::
  "'t pyobj \<Rightarrow> 's SchemaData pyobj \<Rightarrow> ContentType option \<Rightarrow> ('t, 's) Datastore" where
  "Datastore_init sch sd ct =
     \<lparr>content_type = (case ct of None \<Rightarrow> config | Some c \<Rightarrow> c),
      schema_data = sd, schema = sch\<rparr>"

type_synonym QualName = "YangIdentifier \<times> YangIdentifier"

subsection \<open>Datastore\<close>

text \<open>
  The loop of \<^verbatim>\<open>Datastore.get_data_node\<close> over the route. \<open>get_data_child\<close> is the
  method of the absent module \<^verbatim>\<open>schemanode\<close>, \<open>None\<close> when the node has no such child.
  Beside the result the loop gives the segments it looked up, in order.
\<close>

fun data_walk ::
  "('t \<Rightarrow> YangIdentifier \<Rightarrow> YangIdentifier \<Rightarrow> 't option) \<Rightarrow> 't \<Rightarrow> QualName list
     \<Rightarrow> QualName list \<times> 't option" where
  "data_walk get_data_child node [] = ([], Some node)"
| "data_walk get_data_child node (p # ps) =
     (case get_data_child node (fst p) (snd p) of
        None \<Rightarrow> ([p], None)
      | Some node' \<Rightarrow>
          (let (seen, r) = data_walk get_data_child node' ps in (p # seen, r)))"

text \<open>\<^verbatim>\<open>Datastore.get_data_node\<close>. \<open>path2route\<close> is the method of the absent class
  \<^verbatim>\<open>SchemaData\<close>; it raises for a path that is not well-formed.\<close>

definition get_data_node ::
  "('s SchemaData \<Rightarrow> string \<Rightarrow> exn + QualName list)
     \<Rightarrow> ('t \<Rightarrow> YangIdentifier \<Rightarrow> YangIdentifier \<Rightarrow> 't option)
     \<Rightarrow> ('t, 's) Datastore \<Rightarrow> string \<Rightarrow> exn + 't option" where
  "get_data_node path2route get_data_child self path =
     (case path2route (contents (schema_data self)) path of
        Inl e \<Rightarrow> Inl e
      | Inr addr \<Rightarrow> Inr (snd (data_walk get_data_child (contents (schema self)) addr)))"

text \<open>\<^verbatim>\<open>Datastore.parse_resource_id\<close>: this parser is given the schema of the datastore.\<close>

definition parse_resource_id ::
  "(string \<Rightarrow> 't pyobj \<Rightarrow> exn + 'r) \<Rightarrow> ('t, 's) Datastore \<Rightarrow> string \<Rightarrow> exn + 'r" where
  "parse_resource_id ResourceIdParser_parse self text =
     ResourceIdParser_parse text (schema self)"

text \<open>\<^verbatim>\<open>Datastore.schema_digest\<close>. \<open>node_digest\<close> is the method of the absent module
  \<^verbatim>\<open>schemanode\<close>, \<open>dumps\<close> is \<^verbatim>\<open>json.dumps\<close>.\<close>

definition schema_digest ::
  "('t \<Rightarrow> pydict) \<Rightarrow> (json \<Rightarrow> string) \<Rightarrow> ('t, 's) Datastore \<Rightarrow> string" where
  "schema_digest node_digest dumps self =
     (let res = node_digest (contents (schema self));
          res = dict_set res ''config'' (JBool True)
      in dumps (JObject res))"

subsection \<open>DataModel\<close>

record ('t, 's) DataModel =
  datastores :: "(YangIdentifier \<times> ('t, 's) Datastore) list"
  description :: "string option"
  yang_library :: json

text \<open>\<^verbatim>\<open>DataModel.content_id\<close>: the computation of a digest is commented out in the
  source, and the method returns a fixed text.\<close>

definition content_id :: "('t, 's) DataModel \<Rightarrow> string" where
  "content_id dm = ''TODO''"

text \<open>A hexadecimal digit, in either case.\<close>

definition is_hexdigit :: "char \<Rightarrow> bool" where
  "is_hexdigit c \<longleftrightarrow> c \<in> set ''0123456789abcdefABCDEF''"

text \<open>
  What \<^verbatim>\<open>_build_schema\<close> calls on the schema tree and on the schema data, all of it
  in absent modules. A method that changes the tree takes the tree and returns the new
  one, or the exception it raises.
\<close>

record ('t, 's) schema_ops =
  namespace :: "'s SchemaData \<Rightarrow> ModuleId \<Rightarrow> exn + YangIdentifier"
  find_all :: "'s \<Rightarrow> string \<Rightarrow> 's list"
  handle_substatements :: "'t \<Rightarrow> 's \<Rightarrow> 's SchemaContext \<Rightarrow> exn + 't"
  augment_stmt :: "'t \<Rightarrow> 's \<Rightarrow> 's SchemaContext \<Rightarrow> exn + 't"
  post_process :: "'t \<Rightarrow> exn + 't"
  make_schema_patterns :: "'t \<Rightarrow> exn + 't"

text \<open>The calls that \<^verbatim>\<open>_build_schema\<close> makes on the schema tree, recorded as it makes
  them.\<close>

datatype 's event =
    HandleSubstatements ModuleId
  | AugmentStmt ModuleId 's
  | PostProcess
  | MakeSchemaPatterns

text \<open>\<^verbatim>\<open>schema_data.modules[mid]\<close>\<close>

definition modules_getitem :: "'s SchemaData \<Rightarrow> ModuleId \<Rightarrow> exn + 's ModuleData" where
  "modules_getitem sd mid =
     (case modules sd mid of
        None \<Rightarrow> Inl (Exn KeyError (fst mid @ ''@'' @ snd mid))
      | Some md \<Rightarrow> Inr md)"

text \<open>The inner loop of the second pass: \<^verbatim>\<open>for aug in mod.find_all("augment")\<close>.\<close>

fun augment_loop ::
  "('t, 's) schema_ops \<Rightarrow> ModuleId \<Rightarrow> 's SchemaContext \<Rightarrow> 's list
     \<Rightarrow> 's event list \<times> 't \<Rightarrow> 's event list \<times> (exn + 't)" where
  "augment_loop ops mid sctx [] (lg, t) = (lg, Inr t)"
| "augment_loop ops mid sctx (aug # augs) (lg, t) =
     (case augment_stmt ops t aug sctx of
        Inl e \<Rightarrow> (lg @ [AugmentStmt mid aug], Inl e)
      | Inr t' \<Rightarrow> augment_loop ops mid sctx augs (lg @ [AugmentStmt mid aug], t'))"

text \<open>The first loop of \<^verbatim>\<open>_build_schema\<close>.\<close>

fun pass1 ::
  "('t, 's) schema_ops \<Rightarrow> 's SchemaData \<Rightarrow> ModuleId list
     \<Rightarrow> 's event list \<times> 't \<Rightarrow> 's event list \<times> (exn + 't)" where
  "pass1 ops sd [] (lg, t) = (lg, Inr t)"
| "pass1 ops sd (mid # mids) (lg, t) =
     (case namespace ops sd mid of
        Inl e \<Rightarrow> (lg, Inl e)
      | Inr ns \<Rightarrow>
          (let sctx = \<lparr>schema_data_of = sd, default_ns = ns, text_mid = mid\<rparr>
           in case modules_getitem sd mid of
                Inl e \<Rightarrow> (lg, Inl e)
              | Inr md \<Rightarrow>
                  (case handle_substatements ops t (statement md) sctx of
                     Inl e \<Rightarrow> (lg @ [HandleSubstatements mid], Inl e)
                   | Inr t' \<Rightarrow> pass1 ops sd mids (lg @ [HandleSubstatements mid], t'))))"

text \<open>The second loop of \<^verbatim>\<open>_build_schema\<close>.\<close>

fun pass2 ::
  "('t, 's) schema_ops \<Rightarrow> 's SchemaData \<Rightarrow> ModuleId list
     \<Rightarrow> 's event list \<times> 't \<Rightarrow> 's event list \<times> (exn + 't)" where
  "pass2 ops sd [] (lg, t) = (lg, Inr t)"
| "pass2 ops sd (mid # mids) (lg, t) =
     (case namespace ops sd mid of
        Inl e \<Rightarrow> (lg, Inl e)
      | Inr ns \<Rightarrow>
          (let sctx = \<lparr>schema_data_of = sd, default_ns = ns, text_mid = mid\<rparr>
           in case modules_getitem sd mid of
                Inl e \<Rightarrow> (lg, Inl e)
              | Inr md \<Rightarrow>
                  (case augment_loop ops mid sctx
                          (find_all ops (statement md) ''augment'') (lg, t) of
                     (lg', Inl e) \<Rightarrow> (lg', Inl e)
                   | (lg', Inr t') \<Rightarrow> pass2 ops sd mids (lg', t'))))"

text \<open>\<^verbatim>\<open>DataModel._build_schema\<close>: the calls made, and the tree or the exception.\<close>

definition build_schema ::
  "('t, 's) schema_ops \<Rightarrow> 't \<Rightarrow> 's SchemaData \<Rightarrow> 's event list \<times> (exn + 't)" where
  "build_schema ops sch sd =
     (case pass1 ops sd (module_sequence sd) ([], sch) of
        (lg1, Inl e) \<Rightarrow> (lg1, Inl e)
      | (lg1, Inr t1) \<Rightarrow>
          (case pass2 ops sd (module_sequence sd) (lg1, t1) of
             (lg2, Inl e) \<Rightarrow> (lg2, Inl e)
           | (lg2, Inr t2) \<Rightarrow>
               (case post_process ops t2 of
                  Inl e \<Rightarrow> (lg2 @ [PostProcess], Inl e)
                | Inr t3 \<Rightarrow>
                    (case make_schema_patterns ops t3 of
                       Inl e \<Rightarrow> (lg2 @ [PostProcess, MakeSchemaPatterns], Inl e)
                     | Inr t4 \<Rightarrow> (lg2 @ [PostProcess, MakeSchemaPatterns], Inr t4)))))"

text \<open>The order of calls that the description of the builder asks for: every module's
  top-level statements, then every module's augments, then the two closing steps.\<close>

definition augments_of :: "('t, 's) schema_ops \<Rightarrow> 's SchemaData \<Rightarrow> ModuleId \<Rightarrow> 's event list" where
  "augments_of ops sd mid =
     (case modules sd mid of
        None \<Rightarrow> []
      | Some md \<Rightarrow> map (AugmentStmt mid) (find_all ops (statement md) ''augment''))"

definition phases :: "('t, 's) schema_ops \<Rightarrow> 's SchemaData \<Rightarrow> 's event list" where
  "phases ops sd =
     map HandleSubstatements (module_sequence sd)
     @ concat (map (augments_of ops sd) (module_sequence sd))
     @ [PostProcess, MakeSchemaPatterns]"

text \<open>\<^verbatim>\<open>s in t\<close> for two strings: \<open>s\<close> occurs in \<open>t\<close>.\<close>

fun str_contains :: "string \<Rightarrow> string \<Rightarrow> bool" where
  "str_contains [] s = (s = [])"
| "str_contains (c # cs) s =
     (take (length s) (c # cs) = s \<or> str_contains cs s)"

text \<open>\<^verbatim>\<open>k in v\<close> for a string \<open>k\<close> and a decoded value \<open>v\<close>: a key of a dict, an
  element of a list, a part of a string; any other value is not iterable.\<close>

fun py_in :: "string \<Rightarrow> json \<Rightarrow> exn + bool" where
  "py_in k (JObject d) = Inr (k \<in> set (map fst d))"
| "py_in k (JArray xs) = Inr (JString k \<in> set xs)"
| "py_in k (JString s) = Inr (str_contains s k)"
| "py_in k (JInt i) = Inl (Exn TypeError ''argument of type 'int' is not iterable'')"
| "py_in k (JFloat f) = Inl (Exn TypeError ''argument of type 'float' is not iterable'')"
| "py_in k (JBool b) = Inl (Exn TypeError ''argument of type 'bool' is not iterable'')"
| "py_in k JNull = Inl (Exn TypeError ''argument of type 'NoneType' is not iterable'')"

text \<open>
  What the constructor takes from outside \<^verbatim>\<open>datamodel.py\<close>: \<^verbatim>\<open>json.loads\<close>
  (\<open>Inl\<close> the text of a \<^verbatim>\<open>JSONDecodeError\<close>), the constructors of the absent classes
  \<^verbatim>\<open>SchemaTreeNode\<close> and \<^verbatim>\<open>SchemaData\<close>, and the operations of the builder.
\<close>

record ('t, 's) library =
  json_loads :: "string \<Rightarrow> string + json"
  SchemaTreeNode_new :: 't
  SchemaData_new :: "json \<Rightarrow> string list \<Rightarrow> exn + 's SchemaData"
  builder :: "('t, 's) schema_ops"

text \<open>
  \<^verbatim>\<open>DataModel.__init__\<close>. The last argument is the identity the next new object
  gets; the result carries the one after the objects made.
\<close>

definition DataModel_init ::
  "('t, 's) library \<Rightarrow> string \<Rightarrow> string list \<Rightarrow> string option \<Rightarrow> nat
     \<Rightarrow> exn + (('t, 's) DataModel \<times> nat)" where
  "DataModel_init L yltxt mod_path descr nid =
     (case json_loads L yltxt of
        Inl m \<Rightarrow> Inl (Exn BadYangLibraryData m)
      | Inr lib \<Rightarrow>
          (case py_in ''ietf-yang-library:modules-state'' lib of
             Inl e \<Rightarrow> Inl e
           | Inr False \<Rightarrow> Inl (Exn BadYangLibraryData ''top-level member not recognized'')
           | Inr True \<Rightarrow>
               (let root = \<lparr>ident = nid, contents = SchemaTreeNode_new L\<rparr>
                in case SchemaData_new L lib mod_path of
                     Inl e \<Rightarrow> Inl e
                   | Inr sd \<Rightarrow>
                       (let sdata = \<lparr>ident = Suc nid, contents = sd\<rparr>
                        in case snd (build_schema (builder L) (contents root) sd) of
                             Inl e \<Rightarrow> Inl e
                           | Inr t \<Rightarrow>
                               (let root = root\<lparr>contents := t\<rparr>;
                                    ds = dict_set [] ''config'' (Datastore_init root sdata None);
                                    ds = dict_set ds ''operational''
                                           (Datastore_init root sdata (Some all))
                                in Inr (\<lparr>datastores = ds, description = descr,
                                          yang_library = lib\<rparr>, Suc (Suc nid)))))))"

text \<open>
  Attribute lookup on a \<^verbatim>\<open>DataModel\<close> instance, for a name that does not begin with
  two underscores: the three attributes that \<^verbatim>\<open>__init__\<close> sets, then the three
  other functions of the class body; the class has no base class but \<^verbatim>\<open>object\<close>,
  and its annotations create no attribute.
\<close>

datatype ('t, 's) attr =
    AttrDatastores "(YangIdentifier \<times> ('t, 's) Datastore) list"
  | AttrDescription "string option"
  | AttrYangLibrary json
  | AttrMethod string

definition no_attribute :: "string \<Rightarrow> exn" where
  "no_attribute name =
     Exn AttributeError
       (CHR 0x27 # ''DataModel'' @ CHR 0x27 # '' object has no attribute '' @ CHR 0x27 # name
        @ [CHR 0x27])"

definition DataModel_getattr :: "('t, 's) DataModel \<Rightarrow> string \<Rightarrow> exn + ('t, 's) attr" where
  "DataModel_getattr dm name =
     (if name = ''datastores'' then Inr (AttrDatastores (datastores dm))
      else if name = ''description'' then Inr (AttrDescription (description dm))
      else if name = ''yang_library'' then Inr (AttrYangLibrary (yang_library dm))
      else if name = ''from_file'' \<or> name = ''content_id'' \<or> name = ''_build_schema''
        then Inr (AttrMethod name)
      else Inl (no_attribute name))"

section \<open>json_schema.py\<close>

text \<open>\<^verbatim>\<open>s.split(sep)\<close> for a separator of one character.\<close>

fun py_split :: "char \<Rightarrow> string \<Rightarrow> string list" where
  "py_split sep [] = [[]]"
| "py_split sep (c # cs) =
     (if c = sep then [] # py_split sep cs
      else (case py_split sep cs of
              [] \<Rightarrow> [[c]]
            | w # ws \<Rightarrow> (c # w) # ws))"

text \<open>
  What \<^verbatim>\<open>main\<close> takes from its surroundings: reading the whole file of a name
  (\<^verbatim>\<open>open\<close> and \<^verbatim>\<open>read\<close>), the environment variable \<^verbatim>\<open>YANG_MODPATH\<close>, and
  \<^verbatim>\<open>walk\<close>, as the text it prints or the exception it raises.
\<close>

record ('t, 's) system =
  read_file :: "string \<Rightarrow> exn + string"
  YANG_MODPATH :: "string option"
  walk :: "('t, 's) attr \<Rightarrow> exn + string"

text \<open>What a run of \<^verbatim>\<open>main\<close> leaves: the lines printed on each stream, and the return
  code or the exception that leaves the function.\<close>

record outcome =
  stdout :: "string list"
  stderr :: "string list"
  returns :: "exn + int"

text \<open>One \<^verbatim>\<open>except\<close> clause of \<^verbatim>\<open>main\<close>: \<^verbatim>\<open>print(label, str(e), file=sys.stderr)\<close>
  and \<^verbatim>\<open>return rc\<close>.\<close>

definition report :: "string \<Rightarrow> exn \<Rightarrow> int \<Rightarrow> outcome" where
  "report label e rc = \<lparr>stdout = [], stderr = [label @ '' '' @ msg e], returns = Inr rc\<rparr>"

text \<open>An exception that no clause catches leaves \<^verbatim>\<open>main\<close>.\<close>

definition uncaught :: "exn \<Rightarrow> outcome" where
  "uncaught e = \<lparr>stdout = [], stderr = [], returns = Inl e\<rparr>"

text \<open>The directories to search: \<^verbatim>\<open>sp = path if path else os.environ.get("YANG_MODPATH", ".")\<close>
  and \<^verbatim>\<open>tuple(sp.split(":"))\<close>.\<close>

definition search_path :: "('t, 's) system \<Rightarrow> string option \<Rightarrow> string list" where
  "search_path S path =
     (let env = (case YANG_MODPATH S of None \<Rightarrow> ''.'' | Some v \<Rightarrow> v);
          sp = (case path of None \<Rightarrow> env | Some p \<Rightarrow> if p = [] then env else p)
      in py_split CHR '':'' sp)"

text \<open>
  \<^verbatim>\<open>main(ylib, path)\<close> called with the name of the library file; the last argument is
  the identity of the next new object.
\<close>

definition main ::
  "('t, 's) library \<Rightarrow> ('t, 's) system \<Rightarrow> string \<Rightarrow> string option \<Rightarrow> nat \<Rightarrow> outcome" where
  "main L S ylib path nid =
     (case read_file S ylib of
        Inl e \<Rightarrow>
          (if cls e = FileNotFoundError \<or> cls e = PermissionError \<or> cls e = JSONDecodeError
           then report ''YANG library:'' e 1
           else uncaught e)
      | Inr yl \<Rightarrow>
          (case DataModel_init L yl (search_path S path) None nid of
             Inl e \<Rightarrow>
               (if cls e = BadYangLibraryData
                  then report ''Invalid YANG library:'' e 2
                else if cls e = FeaturePrerequisiteError
                  then report ''Unsupported pre-requisite feature:'' e 2
                else if cls e = MultipleImplementedRevisions
                  then report ''Multiple implemented revisions:'' e 2
                else if cls e = ModuleNotFound
                  then report ''Module not found:'' e 2
                else if cls e = ModuleNotRegistered
                  then report ''Module not registered:'' e 2
                else uncaught e)
           | Inr (dm, nid') \<Rightarrow>
               (case DataModel_getattr dm ''schema'' of
                  Inl e \<Rightarrow> uncaught e
                | Inr node \<Rightarrow>
                    (case walk S node of
                       Inl e \<Rightarrow> uncaught e
                     | Inr txt \<Rightarrow> \<lparr>stdout = [txt], stderr = [], returns = Inr 0\<rparr>))))"

text \<open>The five kinds of error that \<^verbatim>\<open>main\<close> catches around the construction of the
  data model, and the label it prints for each.\<close>

definition build_error_kinds :: "exc_class list" where
  "build_error_kinds =
     [BadYangLibraryData, FeaturePrerequisiteError, MultipleImplementedRevisions,
      ModuleNotFound, ModuleNotRegistered]"

fun label_of :: "exc_class \<Rightarrow> string" where
  "label_of BadYangLibraryData = ''Invalid YANG library:''"
| "label_of FeaturePrerequisiteError = ''Unsupported pre-requisite feature:''"
| "label_of MultipleImplementedRevisions = ''Multiple implemented revisions:''"
| "label_of ModuleNotFound = ''Module not found:''"
| "label_of ModuleNotRegistered = ''Module not registered:''"
| "label_of c = []"

section \<open>Example surroundings\<close>

text \<open>
  Concrete stand-ins for the absent modules, to run the definitions above on. A statement
  is a keyword, an argument and substatements; a schema tree is the list of names put
  into it.
\<close>

datatype stmt = Stmt (keyword: string) (argument: string) (substatements: "stmt list")

definition ex_find_all :: "stmt \<Rightarrow> string \<Rightarrow> stmt list" where
  "ex_find_all st kw = filter (\<lambda>c. keyword c = kw) (substatements st)"

definition ex_ops :: "(string list, stmt) schema_ops" where
  "ex_ops =
     \<lparr>namespace = (\<lambda>sd mid. Inr (fst mid)),
      find_all = ex_find_all,
      handle_substatements =
        (\<lambda>t st sctx. Inr (t @ map argument (filter (\<lambda>c. keyword c \<noteq> ''augment'')
                                                 (substatements st)))),
      augment_stmt = (\<lambda>t st sctx. Inr (t @ [argument st])),
      post_process = Inr,
      make_schema_patterns = Inr\<rparr>"

definition ex_mod_a :: stmt where
  "ex_mod_a = Stmt ''module'' ''a'' [Stmt ''container'' ''top'' []]"

definition ex_mod_b :: stmt where
  "ex_mod_b =
     Stmt ''module'' ''b''
       [Stmt ''augment'' ''/a:top'' [], Stmt ''leaf'' ''x'' [], Stmt ''augment'' ''/a:top/a:in'' []]"

definition ex_sdata :: "stmt SchemaData" where
  "ex_sdata =
     \<lparr>module_sequence = [(''a'', ''''), (''b'', '''')],
      modules = [(''a'', '''') \<mapsto> \<lparr>statement = ex_mod_a\<rparr>,
                 (''b'', '''') \<mapsto> \<lparr>statement = ex_mod_b\<rparr>]\<rparr>"

text \<open>The library text of a server with no modules, and what \<^verbatim>\<open>json.loads\<close> makes
  of it.\<close>

definition ex_empty_text :: string where
  "ex_empty_text =
     CHR ''{'' # CHR 0x22 # ''ietf-yang-library:modules-state'' @ CHR 0x22 # '': {''
     @ CHR 0x22 # ''module'' @ CHR 0x22 # '': []}}''"

definition ex_empty_json :: json where
  "ex_empty_json =
     JObject [(''ietf-yang-library:modules-state'', JObject [(''module'', JArray [])])]"

definition ex_empty_sdata :: "stmt SchemaData" where
  "ex_empty_sdata = \<lparr>module_sequence = [], modules = Map.empty\<rparr>"

text \<open>\<^verbatim>\<open>json.loads\<close> on the three texts used below: the one above, an empty object,
  and the empty text, which is not JSON.\<close>

definition ex_loads :: "string \<Rightarrow> string + json" where
  "ex_loads s =
     (if s = ex_empty_text then Inr ex_empty_json
      else if s = ''{}'' then Inr (JObject [])
      else Inl ''Expecting value: line 1 column 1 (char 0)'')"

text \<open>A library whose schema data is \<open>r\<close>, be it an exception.\<close>

definition ex_library :: "exn + stmt SchemaData \<Rightarrow> (string list, stmt) library" where
  "ex_library r =
     \<lparr>json_loads = ex_loads, SchemaTreeNode_new = [],
      SchemaData_new = (\<lambda>lib mod_path. r), builder = ex_ops\<rparr>"

text \<open>A file system with the one file \<open>name\<close> of content \<open>txt\<close>.\<close>

definition ex_system :: "string \<Rightarrow> string \<Rightarrow> (string list, stmt) system" where
  "ex_system name txt =
     \<lparr>read_file = (\<lambda>n. if n = name then Inr txt
                        else Inl (Exn FileNotFoundError ''[Errno 2] No such file or directory'')),
      YANG_MODPATH = None,
      walk = (\<lambda>node. Inr ''{}'')\<rparr>"

text \<open>A schema whose nodes are numbered by depth, where every node has every child but
  one named \<open>gone\<close>; a datastore over it; and \<^verbatim>\<open>path2route\<close> on one data path.\<close>

definition ex_get_data_child :: "nat \<Rightarrow> string \<Rightarrow> string \<Rightarrow> nat option" where
  "ex_get_data_child node name ns = (if name = ''gone'' then None else Some (Suc node))"

definition ex_datastore :: "(nat, stmt) Datastore" where
  "ex_datastore =
     Datastore_init \<lparr>ident = 0, contents = 0\<rparr> \<lparr>ident = 1, contents = ex_empty_sdata\<rparr> None"

definition ex_path2route :: "stmt SchemaData \<Rightarrow> string \<Rightarrow> exn + QualName list" where
  "ex_path2route sd path =
     (if path = ''/m:a/gone/b'' then Inr [(''a'', ''m''), (''gone'', ''m''), (''b'', ''m'')]
      else Inl (Exn InvalidSchemaPath path))"

section \<open>Instance identifiers\<close>

text \<open>
  Modelled from the spec: the parser of instance identifiers, class
  \<^verbatim>\<open>InstanceIdParser\<close> of the absent module \<^verbatim>\<open>instance\<close>, and the route it returns.
  What follows is the spec's route model, its lexical grammar and its grammar of instance
  identifiers.
\<close>

text \<open>Modelled from the spec: a selector is absent, a positional index, or a keyed
  predicate, a mapping from a qualified name or from the self-value \<open>.\<close> to a literal.\<close>

datatype pred_key = KeyName QualName | SelfValue

datatype selector =
    NoSelector
  | Positional nat
  | KeyedPredicate "(pred_key \<times> string) list"

text \<open>Modelled from the spec: a route is an ordered sequence of steps, each a qualified
  name (local name, then module) and a selector.\<close>

record RouteStep =
  name :: QualName
  selector :: selector

type_synonym Route = "RouteStep list"

text \<open>Modelled from the spec: a parser fails with a syntax error that carries the
  offending offset and what was expected there.\<close>

datatype syntax_error = PathSyntaxError (at_offset: nat) (expected: string)

text \<open>Modelled from the spec: the characters of the token rules. An identifier starts
  with a letter or underscore and goes on with letters, digits, underscore, dot or
  hyphen; white space is space, newline, tab and carriage return.\<close>

definition is_ident_start :: "char \<Rightarrow> bool" where
  "is_ident_start c = cset_has [Rng CHR ''a'' CHR ''z'', Rng CHR ''A'' CHR ''Z'', Ch CHR ''_''] c"

definition is_ident_char :: "char \<Rightarrow> bool" where
  "is_ident_char c =
     cset_has [Rng CHR ''a'' CHR ''z'', Rng CHR ''A'' CHR ''Z'', Rng CHR ''0'' CHR ''9'',
               Ch CHR ''_'', Ch CHR ''.'', Ch CHR ''-''] c"

definition is_ws :: "char \<Rightarrow> bool" where
  "is_ws c = cset_has [Ch CHR '' '', Ch CHR 0x0A, Ch CHR 0x09, Ch CHR 0x0D] c"

definition is_digit :: "char \<Rightarrow> bool" where
  "is_digit c = cset_has [Rng CHR ''0'' CHR ''9''] c"

text \<open>
  Modelled from the spec: a token rule takes the text from the current offset on and
  either matches a maximal run, giving what it read and the text left, or reports no
  match (\<open>None\<close>). The rule \<open>identifier\<close>.
\<close>

fun identifier_tok :: "string \<Rightarrow> (string \<times> string) option" where
  "identifier_tok [] = None"
| "identifier_tok (c # cs) =
     (if is_ident_start c
      then Some (c # takeWhile is_ident_char cs, dropWhile is_ident_char cs)
      else None)"

text \<open>Modelled from the spec: the rule \<open>qualified-name\<close>, an optional identifier and
  colon as prefix, then the identifier of the local name.\<close>

definition qualified_name :: "string \<Rightarrow> ((string option \<times> string) \<times> string) option" where
  "qualified_name r =
     (case identifier_tok r of
        None \<Rightarrow> None
      | Some (a, r1) \<Rightarrow>
          (case r1 of
             [] \<Rightarrow> Some ((None, a), r1)
           | c # r2 \<Rightarrow>
               (if c = CHR '':''
                then (case identifier_tok r2 of
                        None \<Rightarrow> Some ((None, a), r1)
                      | Some (b, r3) \<Rightarrow> Some ((Some a, b), r3))
                else Some ((None, a), r1))))"

text \<open>Modelled from the spec: the rule \<open>ws\<close>, zero or more characters of white
  space.\<close>

definition ws :: "string \<Rightarrow> string" where
  "ws r = dropWhile is_ws r"

text \<open>Modelled from the spec: the rule \<open>quoted-literal\<close>, in double or in single
  quotes, up to the next quote of the same kind, with no escapes.\<close>

fun quoted_literal :: "string \<Rightarrow> (string \<times> string) option" where
  "quoted_literal [] = None"
| "quoted_literal (q # r) =
     (if q = CHR 0x22 \<or> q = CHR 0x27
      then (case dropWhile (\<lambda>c. c \<noteq> q) r of
              [] \<Rightarrow> None
            | q' # r' \<Rightarrow> Some (takeWhile (\<lambda>c. c \<noteq> q) r, r'))
      else None)"

definition digit_value :: "char \<Rightarrow> nat" where
  "digit_value c = of_char c - 48"

text \<open>Modelled from the spec: the rule \<open>unsigned-integer\<close>, one or more decimal
  digits.\<close>

definition unsigned_integer :: "string \<Rightarrow> (nat \<times> string) option" where
  "unsigned_integer r =
     (case takeWhile is_digit r of
        [] \<Rightarrow> None
      | d # ds \<Rightarrow> Some (foldl (\<lambda>n c. 10 * n + digit_value c) 0 (d # ds), dropWhile is_digit r))"

text \<open>A single character that must come next.\<close>

definition expect_char :: "char \<Rightarrow> string \<Rightarrow> string option" where
  "expect_char c r = (case r of [] \<Rightarrow> None | d # r' \<Rightarrow> if d = c then Some r' else None)"

text \<open>
  Modelled from the spec: the rule \<open>predicate\<close>, an opening bracket, white space, then
  either a qualified name or a dot, white space, the equals sign, white space, a quoted
  literal, or else digits, and then white space and the closing bracket. The key of a
  keyed predicate is \<open>None\<close> for the dot.
\<close>

datatype predicate_token =
    PositionalToken nat
  | KeyedToken "(string option \<times> string) option" string

definition predicate_key :: "string \<Rightarrow> ((string option \<times> string) option \<times> string) option" where
  "predicate_key r =
     (case expect_char CHR ''.'' r of
        Some r' \<Rightarrow> Some (None, r')
      | None \<Rightarrow>
          (case qualified_name r of
             None \<Rightarrow> None
           | Some (qn, r') \<Rightarrow> Some (Some qn, r')))"

definition keyed_predicate :: "string \<Rightarrow> (predicate_token \<times> string) option" where
  "keyed_predicate r =
     (case predicate_key r of
        None \<Rightarrow> None
      | Some (k, r1) \<Rightarrow>
          (case expect_char CHR ''='' (ws r1) of
             None \<Rightarrow> None
           | Some r2 \<Rightarrow>
               (case quoted_literal (ws r2) of
                  None \<Rightarrow> None
                | Some (v, r3) \<Rightarrow>
                    (case expect_char CHR '']'' (ws r3) of
                       None \<Rightarrow> None
                     | Some r4 \<Rightarrow> Some (KeyedToken k v, r4)))))"

definition positional_predicate :: "string \<Rightarrow> (predicate_token \<times> string) option" where
  "positional_predicate r =
     (case unsigned_integer r of
        None \<Rightarrow> None
      | Some (n, r1) \<Rightarrow>
          (case expect_char CHR '']'' (ws r1) of
             None \<Rightarrow> None
           | Some r2 \<Rightarrow> Some (PositionalToken n, r2)))"

definition predicate :: "string \<Rightarrow> (predicate_token \<times> string) option" where
  "predicate r =
     (case expect_char CHR ''['' r of
        None \<Rightarrow> None
      | Some r1 \<Rightarrow>
          (case keyed_predicate (ws r1) of
             Some m \<Rightarrow> Some m
           | None \<Rightarrow> positional_predicate (ws r1)))"

text \<open>
  Modelled from the spec: the predicates of one step make its one selector. A positional
  predicate on a step with no selector yet gives the positional index; a keyed predicate
  opens or extends the keyed mapping, a key without prefix taking the module of the step
  it stands on. The spec gives a step one selector of one kind, so a predicate that does
  not fit the selector read so far is refused here.
\<close>

fun add_predicate :: "YangIdentifier \<Rightarrow> selector \<Rightarrow> predicate_token \<Rightarrow> selector option" where
  "add_predicate ns NoSelector (PositionalToken n) = Some (Positional n)"
| "add_predicate ns NoSelector (KeyedToken k v) =
     Some (KeyedPredicate
            [(case k of
                None \<Rightarrow> SelfValue
              | Some (p, loc) \<Rightarrow> KeyName (loc, case p of None \<Rightarrow> ns | Some m \<Rightarrow> m), v)])"
| "add_predicate ns (KeyedPredicate kvs) (KeyedToken k v) =
     Some (KeyedPredicate
            (kvs @ [(case k of
                None \<Rightarrow> SelfValue
              | Some (p, loc) \<Rightarrow> KeyName (loc, case p of None \<Rightarrow> ns | Some m \<Rightarrow> m), v)]))"
| "add_predicate ns sel tok = None"

text \<open>
  Modelled from the spec: the grammar of instance identifiers, a sequence of steps, each a
  slash, a qualified name and zero or more predicates. The prefix of the first step is
  mandatory; a later step without prefix takes the prefix of the step before it, which is
  the last explicit one. \<open>pfx\<close> is that prefix, \<open>route\<close> the steps read so far, the last
  of them the one that predicates still belong to. The parse fails at the first thing that
  does not fit, with the length of the text left there and what was expected; a text
  with no step at all fails at its start.
\<close>

function steps :: "YangIdentifier option \<Rightarrow> Route \<Rightarrow> string \<Rightarrow> (nat \<times> string) + Route" where
  "steps pfx route r =
     (case r of
        [] \<Rightarrow> if route = [] then Inl (0, ''/'') else Inr route
      | c # r1 \<Rightarrow>
          (if c = CHR ''/'' then
             (case qualified_name r1 of
                None \<Rightarrow> Inl (length r1, ''qualified name'')
              | Some ((p, loc), r2) \<Rightarrow>
                  (case (case p of None \<Rightarrow> pfx | Some m \<Rightarrow> Some m) of
                     None \<Rightarrow> Inl (length r1, ''prefix'')
                   | Some ns \<Rightarrow>
                       steps (Some ns)
                         (route @ [\<lparr>name = (loc, ns), selector = NoSelector\<rparr>]) r2))
           else if c = CHR ''['' \<and> route \<noteq> [] then
             (case predicate r of
                None \<Rightarrow> Inl (length r, ''predicate'')
              | Some (tok, r') \<Rightarrow>
                  (case add_predicate (snd (name (last route))) (selector (last route)) tok of
                     None \<Rightarrow> Inl (length r, ''predicate of the kind read so far'')
                   | Some sel \<Rightarrow>
                       steps pfx (butlast route @ [(last route)\<lparr>selector := sel\<rparr>]) r'))
           else Inl (length r, if route = [] then ''/'' else ''/ or ['')))"
  by pat_completeness auto
termination
proof (relation "measure (\<lambda>(pfx, route, r). length r)")
  have ident: "\<And>r a r'. identifier_tok r = Some (a, r') \<Longrightarrow> length r' < length r"
  proof -
    fix r a r'
    assume "identifier_tok r = Some (a, r')"
    then show "length r' < length r"
      by (cases r) (auto split: if_splits intro: le_imp_less_Suc length_dropWhile_le)
  qed
  have qname: "\<And>r q r'. qualified_name r = Some (q, r') \<Longrightarrow> length r' < length r"
    by (auto simp: qualified_name_def split: option.splits list.splits if_splits prod.splits
        dest!: ident)
  have expect: "\<And>c r r'. expect_char c r = Some r' \<Longrightarrow> length r' < length r"
    by (auto simp: expect_char_def split: list.splits if_splits)
  have skip: "\<And>r. length (ws r) \<le> length r"
    by (simp add: ws_def length_dropWhile_le)
  have quoted: "\<And>r v r'. quoted_literal r = Some (v, r') \<Longrightarrow> length r' < length r"
  proof -
    fix r v r'
    assume a: "quoted_literal r = Some (v, r')"
    then obtain q t where r: "r = q # t" by (cases r) auto
    with a obtain q' where "dropWhile (\<lambda>c. c \<noteq> q) t = q' # r'"
      by (auto split: if_splits list.splits)
    then have "length r' < length (dropWhile (\<lambda>c. c \<noteq> q) t)" by simp
    also have "\<dots> \<le> length t" by (rule length_dropWhile_le)
    finally show "length r' < length r" using r by simp
  qed
  have digits: "\<And>r n r'. unsigned_integer r = Some (n, r') \<Longrightarrow> length r' \<le> length r"
    by (auto simp: unsigned_integer_def length_dropWhile_le split: list.splits)
  have keyed: "\<And>r t r'. keyed_predicate r = Some (t, r') \<Longrightarrow> length r' \<le> length r"
  proof -
    fix r t r'
    assume "keyed_predicate r = Some (t, r')"
    then obtain k a b v c where x:
        "predicate_key r = Some (k, a)"
        "expect_char CHR ''='' (ws a) = Some b"
        "quoted_literal (ws b) = Some (v, c)"
        "expect_char CHR '']'' (ws c) = Some r'"
      by (auto simp: keyed_predicate_def split: option.splits)
    have "length a \<le> length r"
      using x(1) by (auto simp: predicate_key_def split: option.splits dest!: expect qname)
    then show "length r' \<le> length r"
      using expect [OF x(2)] quoted [OF x(3)] expect [OF x(4)] skip [of a] skip [of b] skip [of c]
      by simp
  qed
  have positional: "\<And>r t r'. positional_predicate r = Some (t, r') \<Longrightarrow> length r' \<le> length r"
  proof -
    fix r t r'
    assume "positional_predicate r = Some (t, r')"
    then obtain n x where x: "unsigned_integer r = Some (n, x)"
        "expect_char CHR '']'' (ws x) = Some r'"
      by (auto simp: positional_predicate_def split: option.splits)
    show "length r' \<le> length r"
      using digits [OF x(1)] expect [OF x(2)] skip [of x] by simp
  qed
  have pred: "\<And>r t r'. predicate r = Some (t, r') \<Longrightarrow> length r' < length r"
  proof -
    fix r t r'
    assume a: "predicate r = Some (t, r')"
    then obtain r1 where r1: "expect_char CHR ''['' r = Some r1"
      by (auto simp: predicate_def split: option.splits)
    from a r1 have "keyed_predicate (ws r1) = Some (t, r')
                    \<or> positional_predicate (ws r1) = Some (t, r')"
      by (auto simp: predicate_def split: option.splits)
    then have "length r' \<le> length (ws r1)"
      using keyed positional by blast
    then show "length r' < length r"
      using expect [OF r1] skip [of r1] by simp
  qed
  show "wf (measure (\<lambda>(pfx, route, r). length r))" by simp
  show "\<And>pfx route r c r1 x2 x r2 p loc ns.
       r = c # r1 \<Longrightarrow> c = CHR ''/'' \<Longrightarrow> qualified_name r1 = Some x2 \<Longrightarrow> (x, r2) = x2 \<Longrightarrow>
       (p, loc) = x \<Longrightarrow> (case p of None \<Rightarrow> pfx | Some m \<Rightarrow> Some m) = Some ns \<Longrightarrow>
       ((Some ns, route @ [\<lparr>name = (loc, ns), selector = NoSelector\<rparr>], r2), pfx, route, r)
         \<in> measure (\<lambda>(pfx, route, r). length r)"
    using qname by fastforce
  show "\<And>pfx route r c r1 x2 tok r' sel.
       r = c # r1 \<Longrightarrow> c \<noteq> CHR ''/'' \<Longrightarrow> c = CHR ''['' \<and> route \<noteq> [] \<Longrightarrow>
       predicate r = Some x2 \<Longrightarrow> (tok, r') = x2 \<Longrightarrow>
       add_predicate (snd (name (last route))) (selector (last route)) tok = Some sel \<Longrightarrow>
       ((pfx, butlast route @ [(last route)\<lparr>selector := sel\<rparr>], r'), pfx, route, r)
         \<in> measure (\<lambda>(pfx, route, r). length r)"
    using pred by fastforce
qed

declare steps.simps [simp del]

text \<open>
  Modelled from the spec: a parser object holds its input and the offset it has reached;
  a new one starts at offset 0. \<^verbatim>\<open>parse()\<close> reads from the offset on and leaves the
  offset where it ended: at the end of the input, or at the place of the syntax error.
\<close>

record parser =
  input :: string
  offset :: nat

definition InstanceIdParser_init :: "string \<Rightarrow> parser" where
  "InstanceIdParser_init text = \<lparr>input = text, offset = 0\<rparr>"

definition InstanceIdParser_parse :: "parser \<Rightarrow> (syntax_error + Route) \<times> parser" where
  "InstanceIdParser_parse p =
     (case steps None [] (drop (offset p) (input p)) of
        Inl (left, what) \<Rightarrow>
          (Inl (PathSyntaxError (length (input p) - left) what),
           p\<lparr>offset := length (input p) - left\<rparr>)
      | Inr route \<Rightarrow> (Inr route, p\<lparr>offset := length (input p)\<rparr>))"

text \<open>The parser objects that the program has made so far, each at its address.\<close>

type_synonym world = "parser list"

text \<open>
  \<^verbatim>\<open>Datastore.parse_instance_id\<close>, called on an instance, as
  \<^verbatim>\<open>InstanceIdParser(text).parse()\<close>: a static method, so the instance is not passed
  on. It makes a new parser object for the text, runs it, and returns the result; the
  object stays behind in the state it reached.
\<close>

definition parse_instance_id ::
  "('t, 's) Datastore \<Rightarrow> string \<Rightarrow> world \<Rightarrow> (syntax_error + Route) \<times> world" where
  "parse_instance_id self text w =
     (let a = length w;
          w = w @ [InstanceIdParser_init text];
          (res, p) = InstanceIdParser_parse (w ! a)
      in (res, w[a := p]))"

section \<open>Properties\<close>

subsection \<open>The digest of a datastore\<close>

lemma dict_get_dict_set: "dict_get (dict_set d k v) k = Some v"
  by (induction d) auto

text \<open>
  C1. For every datastore, \<^verbatim>\<open>schema_digest()\<close> is the serialisation of the digest of
  the schema with the member \<open>config\<close> set to the boolean true, whatever the content
  type: a datastore of content type \<open>all\<close> gives the same document as one of content
  type \<open>config\<close> over the same schema.
\<close>

theorem schema_digest_config_true:
  "schema_digest node_digest dumps self =
     dumps (JObject (dict_set (node_digest (contents (schema self))) ''config'' (JBool True)))
   \<and> dict_get (dict_set (node_digest (contents (schema self))) ''config'' (JBool True)) ''config''
       = Some (JBool True)
   \<and> schema_digest node_digest dumps (self\<lparr>content_type := all\<rparr>)
       = schema_digest node_digest dumps (self\<lparr>content_type := config\<rparr>)"
  by (simp add: schema_digest_def dict_get_dict_set)

subsection \<open>Construction of the data model\<close>

text \<open>
  C2, as stated: a text that is not JSON and a JSON text without the library member make
  the constructor fail with errors of two different kinds. On the code the empty text and
  the text of an empty object both fail with the one class \<^verbatim>\<open>BadYangLibraryData\<close>,
  which differ in the message only.
\<close>

theorem library_errors_one_kind_counterexample:
  "DataModel_init (ex_library (Inr ex_empty_sdata)) '''' [''.''] None 0
     = Inl (Exn BadYangLibraryData ''Expecting value: line 1 column 1 (char 0)'')
   \<and> DataModel_init (ex_library (Inr ex_empty_sdata)) ''{}'' [''.''] None 0
     = Inl (Exn BadYangLibraryData ''top-level member not recognized'')"
  by (simp add: DataModel_init_def ex_library_def ex_loads_def ex_empty_text_def)

text \<open>
  C2, amended. When the library text is not JSON, the constructor raises
  \<^verbatim>\<open>BadYangLibraryData\<close> with the decoder's message; when the text decodes to an object
  that has no member \<open>ietf-yang-library:modules-state\<close>, it raises the same class
  \<^verbatim>\<open>BadYangLibraryData\<close> with the message \<open>top-level member not recognized\<close>.
\<close>

theorem library_errors:
  "(json_loads L yltxt = Inl m \<longrightarrow>
      DataModel_init L yltxt mod_path descr nid = Inl (Exn BadYangLibraryData m))
   \<and> (json_loads L yltxt = Inr (JObject d)
        \<and> ''ietf-yang-library:modules-state'' \<notin> set (map fst d) \<longrightarrow>
      DataModel_init L yltxt mod_path descr nid
        = Inl (Exn BadYangLibraryData ''top-level member not recognized''))"
  by (simp add: DataModel_init_def)

theorem library_errors_witness:
  "json_loads (ex_library (Inr ex_empty_sdata)) ''''
     = Inl ''Expecting value: line 1 column 1 (char 0)''
   \<and> DataModel_init (ex_library (Inr ex_empty_sdata)) '''' [''.''] None 0
     = Inl (Exn BadYangLibraryData ''Expecting value: line 1 column 1 (char 0)'')
   \<and> json_loads (ex_library (Inr ex_empty_sdata)) ''{}'' = Inr (JObject [])
   \<and> ''ietf-yang-library:modules-state'' \<notin> set (map fst ([] :: pydict))
   \<and> DataModel_init (ex_library (Inr ex_empty_sdata)) ''{}'' [''.''] None 0
     = Inl (Exn BadYangLibraryData ''top-level member not recognized'')"
proof -
  let ?L = "ex_library (Inr ex_empty_sdata)"
  have a: "json_loads ?L '''' = Inl ''Expecting value: line 1 column 1 (char 0)''"
    by (simp add: ex_library_def ex_loads_def ex_empty_text_def)
  have b: "json_loads ?L ''{}'' = Inr (JObject [])"
    by (simp add: ex_library_def ex_loads_def ex_empty_text_def)
  from a b
    library_errors [of ?L "''''" "''Expecting value: line 1 column 1 (char 0)''"
                       "[''.'']" None 0 "[]"]
    library_errors [of ?L "''{}''" "[]" "[''.'']" None 0 "[]"]
  show ?thesis by simp
qed

text \<open>
  C3. Whenever the constructor succeeds, the data model has exactly the two datastores
  \<open>config\<close>, of content type \<open>config\<close>, and \<open>operational\<close>, of content type \<open>all\<close>, in
  this order, and both refer to the identical schema tree object and the identical
  schema data object.
\<close>

theorem datastores_share_schema:
  assumes "DataModel_init L yltxt mod_path descr nid = Inr (dm, nid')"
  shows "\<exists>c oper. datastores dm = [(''config'', c), (''operational'', oper)]
           \<and> content_type c = config \<and> content_type oper = all
           \<and> schema c = schema oper \<and> schema_data c = schema_data oper
           \<and> ident (schema c) = ident (schema oper)
           \<and> ident (schema_data c) = ident (schema_data oper)"
  using assms
  by (auto simp: DataModel_init_def Datastore_init_def Let_def
           split: sum.splits bool.splits)

theorem datastores_share_schema_witness:
  "\<exists>dm nid'.
     DataModel_init (ex_library (Inr ex_empty_sdata)) ex_empty_text [''.''] None 0
       = Inr (dm, nid')
     \<and> (\<exists>c oper. datastores dm = [(''config'', c), (''operational'', oper)]
           \<and> content_type c = config \<and> content_type oper = all
           \<and> schema c = schema oper \<and> schema_data c = schema_data oper
           \<and> ident (schema c) = ident (schema oper)
           \<and> ident (schema_data c) = ident (schema_data oper))"
proof -
  have "\<exists>dm nid'.
          DataModel_init (ex_library (Inr ex_empty_sdata)) ex_empty_text [''.''] None 0
            = Inr (dm, nid')"
    by (simp add: DataModel_init_def ex_library_def ex_loads_def ex_empty_json_def
        ex_empty_sdata_def build_schema_def ex_ops_def Let_def)
  then obtain dm nid' where
    h: "DataModel_init (ex_library (Inr ex_empty_sdata)) ex_empty_text [''.''] None 0
          = Inr (dm, nid')"
    by blast
  from datastores_share_schema [OF h] h show ?thesis by blast
qed

subsection \<open>Lookup by data path\<close>

lemma data_walk_seen:
  "data_walk g n (pre @ p # rest) = (seen, r) \<Longrightarrow> data_walk g n pre = (pre, Some n') \<Longrightarrow>
   g n' (fst p) (snd p) = None \<Longrightarrow> seen = pre @ [p] \<and> r = None"
proof (induction pre arbitrary: n seen r)
  case Nil
  then show ?case by simp
next
  case (Cons q pre)
  then show ?case
    by (auto split: option.splits prod.splits)
qed

text \<open>
  C4. For a well-formed data path, whose route is \<open>pre @ p # rest\<close>: when the walk from
  the schema root along \<open>pre\<close> reaches a node that has no child for the segment \<open>p\<close>,
  \<^verbatim>\<open>get_data_node\<close> returns \<open>None\<close>, raises nothing, and has looked up the segments
  of \<open>pre\<close> and \<open>p\<close> only, none of \<open>rest\<close>.
\<close>

theorem get_data_node_short_circuit:
  assumes "path2route (contents (schema_data self)) path = Inr (pre @ p # rest)"
    and "data_walk get_data_child (contents (schema self)) pre = (pre, Some node)"
    and "get_data_child node (fst p) (snd p) = None"
  shows "get_data_node path2route get_data_child self path = Inr None
         \<and> data_walk get_data_child (contents (schema self)) (pre @ p # rest)
             = (pre @ [p], None)"
proof -
  obtain seen r where
    w: "data_walk get_data_child (contents (schema self)) (pre @ p # rest) = (seen, r)"
    by (cases "data_walk get_data_child (contents (schema self)) (pre @ p # rest)")
  from data_walk_seen [OF w assms(2) assms(3)] w assms(1)
  show ?thesis by (simp add: get_data_node_def)
qed

theorem get_data_node_short_circuit_witness:
  "ex_path2route (contents (schema_data ex_datastore)) ''/m:a/gone/b''
     = Inr ([(''a'', ''m'')] @ (''gone'', ''m'') # [(''b'', ''m'')])
   \<and> data_walk ex_get_data_child (contents (schema ex_datastore)) [(''a'', ''m'')]
     = ([(''a'', ''m'')], Some 1)
   \<and> ex_get_data_child 1 (fst (''gone'', ''m'')) (snd (''gone'', ''m'')) = None
   \<and> get_data_node ex_path2route ex_get_data_child ex_datastore ''/m:a/gone/b'' = Inr None
   \<and> data_walk ex_get_data_child (contents (schema ex_datastore))
        ([(''a'', ''m'')] @ (''gone'', ''m'') # [(''b'', ''m'')])
      = ([(''a'', ''m'')] @ [(''gone'', ''m'')], None)"
proof -
  have a: "ex_path2route (contents (schema_data ex_datastore)) ''/m:a/gone/b''
     = Inr ([(''a'', ''m'')] @ (''gone'', ''m'') # [(''b'', ''m'')])"
    by (simp add: ex_path2route_def)
  have b: "data_walk ex_get_data_child (contents (schema ex_datastore)) [(''a'', ''m'')]
     = ([(''a'', ''m'')], Some 1)"
    by (simp add: ex_get_data_child_def ex_datastore_def Datastore_init_def)
  have c: "ex_get_data_child 1 (fst (''gone'', ''m'')) (snd (''gone'', ''m'')) = None"
    by (simp add: ex_get_data_child_def)
  from get_data_node_short_circuit
         [where ?path2route = ex_path2route and ?self = ex_datastore
            and ?path = "''/m:a/gone/b''" and ?pre = "[(''a'', ''m'')]"
            and ?p = "(''gone'', ''m'')" and ?rest = "[(''b'', ''m'')]"
            and ?get_data_child = ex_get_data_child and ?node = 1, OF a b c] a b c
  show ?thesis by blast
qed

subsection \<open>The schema tree builder\<close>

lemma augment_loop_log:
  "\<exists>d rest. map (AugmentStmt mid) augs = d @ rest
     \<and> fst (augment_loop ops mid sctx augs (lg, t)) = lg @ d
     \<and> (\<forall>t'. snd (augment_loop ops mid sctx augs (lg, t)) = Inr t' \<longrightarrow> rest = [])"
proof (induction augs arbitrary: lg t)
  case Nil
  then show ?case by simp
next
  case (Cons aug augs)
  show ?case
  proof (cases "augment_stmt ops t aug sctx")
    case (Inl e)
    have "map (AugmentStmt mid) (aug # augs) = [AugmentStmt mid aug] @ map (AugmentStmt mid) augs"
      by simp
    moreover have "fst (augment_loop ops mid sctx (aug # augs) (lg, t)) = lg @ [AugmentStmt mid aug]"
      using Inl by simp
    moreover have "\<forall>t'. snd (augment_loop ops mid sctx (aug # augs) (lg, t)) \<noteq> Inr t'"
      using Inl by simp
    ultimately show ?thesis by blast
  next
    case (Inr t1)
    from Cons.IH [of "lg @ [AugmentStmt mid aug]" t1]
    obtain d rest where
      h: "map (AugmentStmt mid) augs = d @ rest"
         "fst (augment_loop ops mid sctx augs (lg @ [AugmentStmt mid aug], t1))
            = (lg @ [AugmentStmt mid aug]) @ d"
         "\<forall>t'. snd (augment_loop ops mid sctx augs (lg @ [AugmentStmt mid aug], t1)) = Inr t'
               \<longrightarrow> rest = []"
      by blast
    have "map (AugmentStmt mid) (aug # augs) = (AugmentStmt mid aug # d) @ rest"
      using h(1) by simp
    moreover have "fst (augment_loop ops mid sctx (aug # augs) (lg, t))
                     = lg @ (AugmentStmt mid aug # d)"
      using Inr h(2) by simp
    moreover have "\<forall>t'. snd (augment_loop ops mid sctx (aug # augs) (lg, t)) = Inr t'
                     \<longrightarrow> rest = []"
      using Inr h(3) by simp
    ultimately show ?thesis by blast
  qed
qed

lemma pass1_log:
  fixes ops :: "('t, 's) schema_ops"
  shows "\<exists>d rest. map HandleSubstatements mids = d @ rest
     \<and> fst (pass1 ops sd mids (lg, t)) = lg @ d
     \<and> (\<forall>t'. snd (pass1 ops sd mids (lg, t)) = Inr t' \<longrightarrow> rest = [])"
proof (induction mids arbitrary: lg t)
  case Nil
  then show ?case by simp
next
  case (Cons mid mids)
  let ?ev = "HandleSubstatements mid :: 's event"
  let ?run = "pass1 ops sd (mid # mids) (lg, t)"
  have stop: "fst ?run = lg \<Longrightarrow> \<forall>t'. snd ?run \<noteq> Inr t' \<Longrightarrow> ?case"
  proof -
    assume a: "fst ?run = lg" and b: "\<forall>t'. snd ?run \<noteq> Inr t'"
    have "map HandleSubstatements (mid # mids) = [] @ map HandleSubstatements (mid # mids)"
      by simp
    with a b show ?case by (metis append_Nil2)
  qed
  show ?case
  proof (cases "namespace ops sd mid")
    case (Inl e)
    then show ?thesis by (intro stop) simp_all
  next
    case ns: (Inr ns)
    show ?thesis
    proof (cases "modules_getitem sd mid")
      case (Inl e)
      with ns show ?thesis by (intro stop) (simp_all add: Let_def)
    next
      case md: (Inr md)
      let ?sctx = "\<lparr>schema_data_of = sd, default_ns = ns, text_mid = mid\<rparr>"
      show ?thesis
      proof (cases "handle_substatements ops t (statement md) ?sctx")
        case (Inl e)
        have "map HandleSubstatements (mid # mids) = [?ev] @ map HandleSubstatements mids"
          by simp
        moreover have "fst ?run = lg @ [?ev]"
          using ns md Inl by (simp add: Let_def)
        moreover have "\<forall>t'. snd ?run \<noteq> Inr t'"
          using ns md Inl by (simp add: Let_def)
        ultimately show ?thesis by blast
      next
        case (Inr t1)
        from Cons.IH [of "lg @ [?ev]" t1]
        obtain d rest where
          h: "map HandleSubstatements mids = d @ rest"
             "fst (pass1 ops sd mids (lg @ [?ev], t1)) = (lg @ [?ev]) @ d"
             "\<forall>t'. snd (pass1 ops sd mids (lg @ [?ev], t1)) = Inr t' \<longrightarrow> rest = []"
          by blast
        have "map HandleSubstatements (mid # mids) = (?ev # d) @ rest"
          using h(1) by simp
        moreover have "fst ?run = lg @ (?ev # d)"
          using ns md Inr h(2) by (simp add: Let_def)
        moreover have "\<forall>t'. snd ?run = Inr t' \<longrightarrow> rest = []"
          using ns md Inr h(3) by (simp add: Let_def)
        ultimately show ?thesis by blast
      qed
    qed
  qed
qed


lemma pass2_log:
  fixes ops :: "('t, 's) schema_ops"
  shows "\<exists>d rest. concat (map (augments_of ops sd) mids) = d @ rest
     \<and> fst (pass2 ops sd mids (lg, t)) = lg @ d
     \<and> (\<forall>t'. snd (pass2 ops sd mids (lg, t)) = Inr t' \<longrightarrow> rest = [])"
proof (induction mids arbitrary: lg t)
  case Nil
  then show ?case by simp
next
  case (Cons mid mids)
  let ?run = "pass2 ops sd (mid # mids) (lg, t)"
  let ?all = "concat (map (augments_of ops sd) (mid # mids))"
  have stop: "fst ?run = lg \<Longrightarrow> \<forall>t'. snd ?run \<noteq> Inr t' \<Longrightarrow> ?case"
  proof -
    assume a: "fst ?run = lg" and b: "\<forall>t'. snd ?run \<noteq> Inr t'"
    have "?all = [] @ ?all" by simp
    with a b show ?case by (metis append_Nil2)
  qed
  show ?case
  proof (cases "namespace ops sd mid")
    case (Inl e)
    then show ?thesis by (intro stop) simp_all
  next
    case ns: (Inr ns)
    show ?thesis
    proof (cases "modules sd mid")
      case None
      with ns show ?thesis by (intro stop) (simp_all add: Let_def modules_getitem_def)
    next
      case (Some md)
      then have md: "modules_getitem sd mid = Inr md"
        by (simp add: modules_getitem_def)
      let ?sctx = "\<lparr>schema_data_of = sd, default_ns = ns, text_mid = mid\<rparr>"
      let ?augs = "find_all ops (statement md) ''augment''"
      let ?inner = "augment_loop ops mid ?sctx ?augs (lg, t)"
      have here: "augments_of ops sd mid = map (AugmentStmt mid) ?augs"
        using Some by (simp add: augments_of_def)
      from augment_loop_log [of mid ?augs ops ?sctx lg t]
      obtain d1 rest1 where
        i: "map (AugmentStmt mid) ?augs = d1 @ rest1"
           "fst ?inner = lg @ d1"
           "\<forall>t'. snd ?inner = Inr t' \<longrightarrow> rest1 = []"
        by blast
      show ?thesis
      proof (cases "snd ?inner")
        case (Inl e)
        have inner: "?inner = (lg @ d1, Inl e)"
          using i(2) Inl by (simp add: prod_eq_iff)
        have "?all = d1 @ (rest1 @ concat (map (augments_of ops sd) mids))"
          using here i(1) by simp
        moreover have "fst ?run = lg @ d1"
          using ns md inner by (simp add: Let_def)
        moreover have "\<forall>t'. snd ?run \<noteq> Inr t'"
          using ns md inner by (simp add: Let_def)
        ultimately show ?thesis by blast
      next
        case (Inr t1)
        with i(3) have r1: "rest1 = []" by simp
        have inner: "?inner = (lg @ d1, Inr t1)"
          using i(2) Inr by (simp add: prod_eq_iff)
        from Cons.IH [of "lg @ d1" t1]
        obtain d rest where
          h: "concat (map (augments_of ops sd) mids) = d @ rest"
             "fst (pass2 ops sd mids (lg @ d1, t1)) = (lg @ d1) @ d"
             "\<forall>t'. snd (pass2 ops sd mids (lg @ d1, t1)) = Inr t' \<longrightarrow> rest = []"
          by blast
        have "?all = (d1 @ d) @ rest"
          using here i(1) r1 h(1) by simp
        moreover have "fst ?run = lg @ (d1 @ d)"
          using ns md inner h(2) by (simp add: Let_def)
        moreover have "\<forall>t'. snd ?run = Inr t' \<longrightarrow> rest = []"
          using ns md inner h(3) by (simp add: Let_def)
        ultimately show ?thesis by blast
      qed
    qed
  qed
qed

lemma build_schema_log:
  fixes ops :: "('t, 's) schema_ops"
  shows "\<exists>d rest. phases ops sd = d @ rest
     \<and> fst (build_schema ops sch sd) = d
     \<and> (\<forall>t'. snd (build_schema ops sch sd) = Inr t' \<longrightarrow> rest = [])
     \<and> ((\<exists>mid aug. AugmentStmt mid aug \<in> set d) \<longrightarrow>
          (\<exists>d'. d = map HandleSubstatements (module_sequence sd) @ d'))
     \<and> (PostProcess \<in> set d \<longrightarrow>
          (\<exists>d'. d = map HandleSubstatements (module_sequence sd)
                      @ concat (map (augments_of ops sd) (module_sequence sd)) @ d'))"
proof -
  let ?seq = "module_sequence sd"
  let ?H = "map HandleSubstatements ?seq :: 's event list"
  let ?A = "concat (map (augments_of ops sd) ?seq)"
  let ?run = "build_schema ops sch sd"
  have noP: "PostProcess \<notin> set ?H" "PostProcess \<notin> set ?A"
    by (auto simp: augments_of_def split: option.splits)
  from pass1_log [of ?seq ops sd "[]" sch]
  obtain d1 rest1 where
    p1: "?H = d1 @ rest1"
        "fst (pass1 ops sd ?seq ([], sch)) = d1"
        "\<forall>t'. snd (pass1 ops sd ?seq ([], sch)) = Inr t' \<longrightarrow> rest1 = []"
    by auto
  show ?thesis
  proof (cases "snd (pass1 ops sd ?seq ([], sch))")
    case (Inl e)
    then have "pass1 ops sd ?seq ([], sch) = (d1, Inl e)"
      using p1(2) by (simp add: prod_eq_iff)
    then have r: "?run = (d1, Inl e)"
      by (simp add: build_schema_def)
    have "phases ops sd = d1 @ (rest1 @ ?A @ [PostProcess, MakeSchemaPatterns])"
      using p1(1) by (simp add: phases_def)
    moreover have "\<not> (\<exists>mid aug. AugmentStmt mid aug \<in> set d1)"
    proof -
      have "set d1 \<subseteq> set ?H" using p1(1) by (metis set_append Un_upper1)
      then show ?thesis by auto
    qed
    moreover have "PostProcess \<notin> set d1"
      using noP(1) p1(1) by auto
    ultimately show ?thesis using r by auto
  next
    case (Inr t1)
    with p1 have d1: "d1 = ?H" and run1: "pass1 ops sd ?seq ([], sch) = (?H, Inr t1)"
      by (auto simp: prod_eq_iff)
    from pass2_log [of ops sd ?seq ?H t1]
    obtain d2 rest2 where
      p2: "?A = d2 @ rest2"
          "fst (pass2 ops sd ?seq (?H, t1)) = ?H @ d2"
          "\<forall>t'. snd (pass2 ops sd ?seq (?H, t1)) = Inr t' \<longrightarrow> rest2 = []"
      by blast
    show ?thesis
    proof (cases "snd (pass2 ops sd ?seq (?H, t1))")
      case (Inl e)
      then have "pass2 ops sd ?seq (?H, t1) = (?H @ d2, Inl e)"
        using p2(2) by (simp add: prod_eq_iff)
      then have r: "?run = (?H @ d2, Inl e)"
        using run1 by (simp add: build_schema_def)
      have "phases ops sd = (?H @ d2) @ (rest2 @ [PostProcess, MakeSchemaPatterns])"
        using p2(1) by (simp add: phases_def)
      moreover have "PostProcess \<notin> set (?H @ d2)"
        using noP p2(1) by auto
      ultimately show ?thesis using r by auto
    next
      case (Inr t2)
      with p2 have d2: "d2 = ?A" and run2: "pass2 ops sd ?seq (?H, t1) = (?H @ ?A, Inr t2)"
        by (auto simp: prod_eq_iff)
      show ?thesis
      proof (cases "post_process ops t2")
        case (Inl e)
        then have r: "?run = (?H @ ?A @ [PostProcess], Inl e)"
          using run1 run2 by (simp add: build_schema_def)
        have "phases ops sd = (?H @ ?A @ [PostProcess]) @ [MakeSchemaPatterns]"
          by (simp add: phases_def)
        then show ?thesis using r by auto
      next
        case t3: (Inr t3)
        have f: "fst ?run = phases ops sd"
          using run1 run2 t3 by (simp add: build_schema_def phases_def split: sum.splits)
        have "phases ops sd = phases ops sd @ []" by simp
        moreover have "\<exists>d'. phases ops sd = ?H @ d'" "\<exists>d'. phases ops sd = ?H @ ?A @ d'"
          by (simp_all add: phases_def)
        ultimately show ?thesis using f by metis
      qed
    qed
  qed
qed


text \<open>
  C5. The calls that \<^verbatim>\<open>_build_schema\<close> makes on the schema tree are, in this order: the
  top-level statements of every module of the module sequence, then the augments of every
  module of the sequence, then post-processing, then the schema patterns. A run that an
  exception cuts short has made an initial part of these calls; a run that returns has
  made them all. So an augment is applied only after the first pass has gone through
  every module, and post-processing runs only after every augment is applied.
\<close>

theorem build_schema_phases:
  fixes ops :: "('t, 's) schema_ops"
  shows "(\<exists>rest. phases ops sd = fst (build_schema ops sch sd) @ rest)
    \<and> (\<forall>t. snd (build_schema ops sch sd) = Inr t \<longrightarrow>
          fst (build_schema ops sch sd) = phases ops sd)
    \<and> ((\<exists>mid aug. AugmentStmt mid aug \<in> set (fst (build_schema ops sch sd))) \<longrightarrow>
          (\<exists>later. fst (build_schema ops sch sd)
                     = map HandleSubstatements (module_sequence sd) @ later))
    \<and> (PostProcess \<in> set (fst (build_schema ops sch sd)) \<longrightarrow>
          (\<exists>later. fst (build_schema ops sch sd)
                     = map HandleSubstatements (module_sequence sd)
                       @ concat (map (augments_of ops sd) (module_sequence sd)) @ later))"
proof -
  from build_schema_log [of ops sd sch]
  obtain d rest where
    h: "phases ops sd = d @ rest"
       "fst (build_schema ops sch sd) = d"
       "\<forall>t'. snd (build_schema ops sch sd) = Inr t' \<longrightarrow> rest = []"
       "(\<exists>mid aug. AugmentStmt mid aug \<in> set d) \<longrightarrow>
          (\<exists>d'. d = map HandleSubstatements (module_sequence sd) @ d')"
       "PostProcess \<in> set d \<longrightarrow>
          (\<exists>d'. d = map HandleSubstatements (module_sequence sd)
                      @ concat (map (augments_of ops sd) (module_sequence sd)) @ d')"
    by blast
  have "\<exists>rest. phases ops sd = fst (build_schema ops sch sd) @ rest"
    using h(1) h(2) by blast
  moreover have "\<forall>t. snd (build_schema ops sch sd) = Inr t \<longrightarrow>
          fst (build_schema ops sch sd) = phases ops sd"
    using h(1) h(2) h(3) by simp
  ultimately show ?thesis using h(2) h(4) h(5) by simp
qed

theorem build_schema_phases_witness:
  "snd (build_schema ex_ops [] ex_sdata) = Inr [''top'', ''x'', ''/a:top'', ''/a:top/a:in'']
   \<and> fst (build_schema ex_ops [] ex_sdata) = phases ex_ops ex_sdata
   \<and> phases ex_ops ex_sdata =
       [HandleSubstatements (''a'', ''''), HandleSubstatements (''b'', ''''),
        AugmentStmt (''b'', '''') (Stmt ''augment'' ''/a:top'' []),
        AugmentStmt (''b'', '''') (Stmt ''augment'' ''/a:top/a:in'' []),
        PostProcess, MakeSchemaPatterns]"
proof -
  have a: "snd (build_schema ex_ops [] ex_sdata)
             = Inr [''top'', ''x'', ''/a:top'', ''/a:top/a:in'']"
    by (simp add: build_schema_def ex_ops_def ex_sdata_def modules_getitem_def
        ex_find_all_def ex_mod_a_def ex_mod_b_def Let_def)
  have b: "phases ex_ops ex_sdata =
       [HandleSubstatements (''a'', ''''), HandleSubstatements (''b'', ''''),
        AugmentStmt (''b'', '''') (Stmt ''augment'' ''/a:top'' []),
        AugmentStmt (''b'', '''') (Stmt ''augment'' ''/a:top/a:in'' []),
        PostProcess, MakeSchemaPatterns]"
    by (simp add: phases_def augments_of_def ex_ops_def ex_sdata_def
        ex_find_all_def ex_mod_a_def ex_mod_b_def)
  from build_schema_phases [of ex_ops ex_sdata "[]"] a b show ?thesis by simp
qed

subsection \<open>The predicate token\<close>

text \<open>
  C6 says that the positional alternative of the predicate pattern needs one digit or
  more, as \<^verbatim>\<open>integer_re\<close> does. The pattern has \<^verbatim>\<open>\d*\<close> there: it matches a bracket
  pair with nothing or only white space inside, the group \<open>pos\<close> taking part with the
  empty text, while \<^verbatim>\<open>integer_re\<close> does not match the empty text.
\<close>

theorem pred_re_empty_position:
  "re_match pred_re ''[]'' = Some (''[]'', [(''pos'', '''')])
   \<and> re_match pred_re ''[ ]'' = Some (''[ ]'', [(''pos'', '''')])
   \<and> re_match integer_re '''' = None"
  by code_simp

subsection \<open>The command-line wrapper\<close>

text \<open>
  C7, as stated: no two of the kinds of error of the construction share an exit code. On
  the code a library without the library member (\<^verbatim>\<open>BadYangLibraryData\<close>) and a module
  that is not found (\<^verbatim>\<open>ModuleNotFound\<close>) both end with the code 2.
\<close>

theorem main_exit_codes_shared_counterexample:
  "returns (main (ex_library (Inr ex_empty_sdata)) (ex_system ''yl.json'' ''{}'')
              ''yl.json'' None 0)
     = Inr 2
   \<and> stderr (main (ex_library (Inr ex_empty_sdata)) (ex_system ''yl.json'' ''{}'')
                ''yl.json'' None 0)
     = [''Invalid YANG library: top-level member not recognized'']
   \<and> returns (main (ex_library (Inl (Exn ModuleNotFound ''ietf-interfaces'')))
                (ex_system ''yl.json'' ex_empty_text) ''yl.json'' None 0)
     = Inr 2
   \<and> stderr (main (ex_library (Inl (Exn ModuleNotFound ''ietf-interfaces'')))
                (ex_system ''yl.json'' ex_empty_text) ''yl.json'' None 0)
     = [''Module not found: ietf-interfaces'']"
  by (simp add: main_def DataModel_init_def ex_library_def ex_system_def ex_loads_def
      ex_empty_text_def ex_empty_json_def report_def)

text \<open>
  C7, amended. When the construction of the data model raises one of the five kinds of
  error, \<^verbatim>\<open>main\<close> prints one diagnostic on the error stream, the label of the kind
  followed by the text of the error, and returns 2 for every one of them; the labels of
  the five kinds are pairwise different.
\<close>

theorem main_build_errors_exit_2:
  assumes "read_file S ylib = Inr yl"
    and "DataModel_init L yl (search_path S path) None nid = Inl e"
    and "cls e \<in> set build_error_kinds"
  shows "main L S ylib path nid
           = \<lparr>stdout = [], stderr = [label_of (cls e) @ '' '' @ msg e], returns = Inr 2\<rparr>
         \<and> distinct (map label_of build_error_kinds)"
  using assms by (auto simp: main_def report_def build_error_kinds_def)

theorem main_build_errors_exit_2_witness:
  "read_file (ex_system ''yl.json'' ex_empty_text) ''yl.json'' = Inr ex_empty_text
   \<and> DataModel_init (ex_library (Inl (Exn ModuleNotFound ''ietf-interfaces''))) ex_empty_text
        (search_path (ex_system ''yl.json'' ex_empty_text) None) None 0
       = Inl (Exn ModuleNotFound ''ietf-interfaces'')
   \<and> cls (Exn ModuleNotFound ''ietf-interfaces'') \<in> set build_error_kinds
   \<and> main (ex_library (Inl (Exn ModuleNotFound ''ietf-interfaces'')))
        (ex_system ''yl.json'' ex_empty_text) ''yl.json'' None 0
       = \<lparr>stdout = [], stderr = [''Module not found: ietf-interfaces''], returns = Inr 2\<rparr>"
proof -
  let ?S = "ex_system ''yl.json'' ex_empty_text"
  let ?L = "ex_library (Inl (Exn ModuleNotFound ''ietf-interfaces''))"
  have a: "read_file ?S ''yl.json'' = Inr ex_empty_text"
    by (simp add: ex_system_def)
  have b: "DataModel_init ?L ex_empty_text (search_path ?S None) None 0
             = Inl (Exn ModuleNotFound ''ietf-interfaces'')"
    by (simp add: DataModel_init_def ex_library_def ex_loads_def ex_empty_json_def)
  have c: "cls (Exn ModuleNotFound ''ietf-interfaces'') \<in> set build_error_kinds"
    by (simp add: build_error_kinds_def)
  from main_build_errors_exit_2 [OF a b c] a b c show ?thesis by simp
qed

text \<open>
  C9 says that \<^verbatim>\<open>main\<close> prints the JSON Schema and returns 0 whenever the data model
  is built. On the code every such run ends in \<^verbatim>\<open>walk(dm.schema)\<close>: a data model has
  no attribute \<open>schema\<close>, so an \<^verbatim>\<open>AttributeError\<close> leaves \<^verbatim>\<open>main\<close>, nothing is
  printed and no code is returned.
\<close>

theorem main_success_raises:
  assumes "read_file S ylib = Inr yl"
    and "DataModel_init L yl (search_path S path) None nid = Inr (dm, nid')"
  shows "main L S ylib path nid = uncaught (no_attribute ''schema'')
         \<and> stdout (main L S ylib path nid) = []
         \<and> returns (main L S ylib path nid) \<noteq> Inr 0"
  using assms by (simp add: main_def DataModel_getattr_def uncaught_def)

theorem main_success_raises_witness:
  "read_file (ex_system ''yl.json'' ex_empty_text) ''yl.json'' = Inr ex_empty_text
   \<and> (\<exists>dm nid'. DataModel_init (ex_library (Inr ex_empty_sdata)) ex_empty_text
        (search_path (ex_system ''yl.json'' ex_empty_text) None) None 0 = Inr (dm, nid'))
   \<and> main (ex_library (Inr ex_empty_sdata)) (ex_system ''yl.json'' ex_empty_text)
        ''yl.json'' None 0
       = uncaught (no_attribute ''schema'')"
proof -
  let ?S = "ex_system ''yl.json'' ex_empty_text"
  let ?L = "ex_library (Inr ex_empty_sdata)"
  have a: "read_file ?S ''yl.json'' = Inr ex_empty_text"
    by (simp add: ex_system_def)
  have "\<exists>dm nid'. DataModel_init ?L ex_empty_text (search_path ?S None) None 0 = Inr (dm, nid')"
    by (simp add: DataModel_init_def ex_library_def ex_loads_def ex_empty_json_def
        ex_empty_sdata_def build_schema_def ex_ops_def Let_def)
  then obtain dm nid' where
    b: "DataModel_init ?L ex_empty_text (search_path ?S None) None 0 = Inr (dm, nid')"
    by blast
  from main_success_raises [OF a b] a b show ?thesis by blast
qed

subsection \<open>Parsing of instance identifiers\<close>



subsection \<open>The content id\<close>

text \<open>
  C10. For every data model, whatever its library data, datastores and description,
  \<^verbatim>\<open>content_id()\<close> is the text TODO, which is not a string of hexadecimal digits;
  so any two data models, also of different library data, get equal content ids.
\<close>

theorem content_id_constant:
  "content_id dm = ''TODO''
   \<and> \<not> list_all is_hexdigit (content_id dm)
   \<and> content_id dm = content_id dm'"
  by (simp add: content_id_def is_hexdigit_def)

end
